theory Spec2Isabelle
  imports Complex_Main
begin

section \<open>The PagAnimation component: lifecycle of the activations of its effect\<close>

text \<open>
  The development embeds \<^verbatim>\<open>src/components/PagAnimation.tsx\<close>: the body of the
  \<^verbatim>\<open>useEffect\<close> callback (the asynchronous function \<^verbatim>\<open>initPagAnimation\<close>, the
  interval callback it installs, and the cleanup closure) together with the render function's
  reading of the two state cells.

  JavaScript is single threaded: the asynchronous function runs in segments, one from each
  \<^verbatim>\<open>await\<close> to the next, and the cleanup closure, an interval callback or React detaching
  the canvas can run between two segments. The model therefore is a step function on an
  explicit state, driven by a list of events. What the external collaborators (libpag, fetch,
  the handle's methods) answer is a parameter of the model.

  The model has two levels. The first is one activation of the effect: its segments, its
  cleanup and its interval callback, acting on the cells of the component and on the
  activation's own closure. The second is the component over several activations, where an
  activation that was cleaned up may still resume.
\<close>

subsection \<open>Values of the collaborators\<close>

text \<open>A thrown value (or rejection reason): an instance of Error with its message, or anything else.\<close>

datatype thrown = JsError string | NonError

text \<open>The result of a call: it returns (a promise resolves), or throws (a promise rejects).\<close>

datatype 'a outcome = Returns 'a | Throws thrown

text \<open>
  How the promise settles that a call returned and that nobody awaits: it resolves, or it
  rejects with a reason.
\<close>

datatype settlement = Resolves | Rejects thrown

record response =
  ok :: bool
  statusText :: string

text \<open>The handle objects that \<^verbatim>\<open>PAG.PAGView.init\<close> produces, by identity.\<close>

type_synonym view = nat

text \<open>
  A number as \<^verbatim>\<open>getProgress\<close> answers it. A finite double is a rational number, and
  doubles are compared as the rationals they are.
\<close>

datatype jsnum = Num rat | NaN

text \<open>
  The literal \<^verbatim>\<open>0.99\<close> of line 112 denotes the double nearest to 99/100, which is
  4458563631096791 / 2^52 and lies just below 99/100.
\<close>

definition double_0_99 :: rat where
  "double_0_99 = 4458563631096791 / 4503599627370496"

text \<open>\<^verbatim>\<open>getProgress?.()\<close>: the method may be missing, in which case the call is skipped.\<close>

datatype probe = NoGetProgress | GetProgress "jsnum outcome"

text \<open>
  What the handle answers during one run of the interval callback. The call of
  \<^verbatim>\<open>play()\<close> at line 114 is not awaited: it throws at once, or it returns a promise
  (line 5), which settles after the callback has returned.
\<close>

record poll =
  getProgress_result :: probe
  setProgress_result :: "unit outcome"
  restart_result :: "settlement outcome"

text \<open>The props of the component (lines 21-28).\<close>

record props =
  pagFile :: string
  width :: int
  height :: int
  autoPlay :: bool
  loop :: bool

text \<open>What the collaborators answer to the calls of one activation.\<close>

record engine =
  PAGInit_result :: "unit outcome"
  fetch_result :: "response outcome"
  arrayBuffer_result :: "unit outcome"
  load_result :: "bool outcome"
  init_result :: "view option outcome"
  setRepeatCount_result :: "unit outcome"
  play_result :: "unit outcome"
  destroy_result :: "unit outcome"

text \<open>
  In \<open>load_result\<close>, \<open>Returns False\<close> is a falsy answer (null) of \<^verbatim>\<open>PAG.PAGFile.load\<close>;
  in \<open>init_result\<close>, \<open>Returns None\<close> is a falsy answer of \<^verbatim>\<open>PAG.PAGView.init\<close>.
\<close>

subsection \<open>State\<close>

text \<open>Where the asynchronous function is suspended: one point for each \<^verbatim>\<open>await\<close>.\<close>

datatype pc =
    NotStarted
  | AwaitPAGInit
  | AwaitFetch
  | AwaitArrayBuffer
  | AwaitLoad
  | AwaitInit
  | AwaitPlay view
  | Finished

text \<open>
  Everything the code does that is visible outside of it, in program order. The last action
  is the host being told of a promise that rejected with no handler attached
  (the \<^verbatim>\<open>unhandledrejection\<close> event of the window).
\<close>

datatype action =
    SetIsLoading bool
  | SetError "string option"
  | SetMounted bool
  | SetSession "view option"
  | SetCanvasSize int int
  | SetLoopIntervalId view nat
  | CallPAGInit
  | CallFetch string
  | CallArrayBuffer
  | CallLoad
  | CallInit
  | CallSetRepeatCount view int
  | CallPlay view
  | CallGetProgress view
  | CallSetProgress view rat
  | CallDestroy view
  | CallSetInterval nat nat
  | CallClearInterval nat
  | ConsoleError thrown
  | ConsoleWarn string
  | UnhandledRejection thrown

text \<open>
  The cells that one activation of the effect reads and writes: the cells of the component,
  which all activations share, and the two things that are the activation's own, the variable
  \<open>isMounted\<close> of its closure and the point \<open>pc\<close> where its asynchronous function is
  suspended.
  \<open>isMounted\<close> is the closure variable of line 35, \<open>pagViewRef\<close> the ref of line 30,
  \<open>isLoading\<close> and \<open>error\<close> the state cells of lines 31-32, \<open>canvas\<close> is
  \<^verbatim>\<open>canvasRef.current\<close> with the element's pixel size, \<open>loopIntervalId\<close> is the
  \<^verbatim>\<open>_loopIntervalId\<close> property of each handle object, \<open>timers\<close> the intervals that are
  armed, \<open>lastTimer\<close> the last handle \<^verbatim>\<open>setInterval\<close> gave out.
\<close>

record state =
  isMounted :: bool
  pagViewRef :: "view option"
  isLoading :: bool
  error :: "string option"
  canvas :: "(int \<times> int) option"
  loopIntervalId :: "view \<rightharpoonup> nat"
  timers :: "nat set"
  lastTimer :: nat
  pc :: pc
  trace :: "action list"

subsection \<open>Statements and their completions\<close>

text \<open>
  A statement ends normally, by throwing, by \<^verbatim>\<open>return\<close>, or by suspending the function
  at an \<^verbatim>\<open>await\<close>. The state changes made before a throw stay.
\<close>

datatype completion = Normal | Throw thrown | Return | Await pc

type_synonym stmt = "state \<Rightarrow> completion \<times> state"

definition js_skip :: stmt where
  "js_skip s = (Normal, s)"

definition js_throw :: "thrown \<Rightarrow> stmt" where
  "js_throw t s = (Throw t, s)"

definition js_return :: stmt where
  "js_return s = (Return, s)"

definition js_await :: "pc \<Rightarrow> stmt" where
  "js_await p s = (Await p, s)"

fun js_block :: "stmt list \<Rightarrow> stmt" where
  "js_block [] s = (Normal, s)"
| "js_block (c # cs) s = (case c s of (Normal, s') \<Rightarrow> js_block cs s' | r \<Rightarrow> r)"

definition js_if :: "(state \<Rightarrow> bool) \<Rightarrow> stmt \<Rightarrow> stmt \<Rightarrow> stmt" where
  "js_if b c d s = (if b s then c s else d s)"

definition js_try :: "stmt \<Rightarrow> (thrown \<Rightarrow> stmt) \<Rightarrow> stmt" where
  "js_try body handler s = (case body s of (Throw t, s') \<Rightarrow> handler t s' | r \<Rightarrow> r)"

definition emit :: "action \<Rightarrow> stmt" where
  "emit a s = (Normal, s\<lparr>trace := trace s @ [a]\<rparr>)"

text \<open>A call of a collaborator: it is made, then it returns or throws.\<close>

definition call :: "action \<Rightarrow> 'a outcome \<Rightarrow> stmt" where
  "call a r s = ((case r of Returns _ \<Rightarrow> Normal | Throws t \<Rightarrow> Throw t), s\<lparr>trace := trace s @ [a]\<rparr>)"

text \<open>Resuming after an \<^verbatim>\<open>await\<close>: a rejection is thrown at the point of the await.\<close>

definition settled :: "'a outcome \<Rightarrow> stmt" where
  "settled r s = ((case r of Returns _ \<Rightarrow> Normal | Throws t \<Rightarrow> Throw t), s)"

subsection \<open>Assignments\<close>

definition setIsLoading :: "bool \<Rightarrow> stmt" where
  "setIsLoading b s = (Normal, s\<lparr>isLoading := b, trace := trace s @ [SetIsLoading b]\<rparr>)"

definition setError :: "string option \<Rightarrow> stmt" where
  "setError e s = (Normal, s\<lparr>error := e, trace := trace s @ [SetError e]\<rparr>)"

definition set_isMounted :: "bool \<Rightarrow> stmt" where
  "set_isMounted b s = (Normal, s\<lparr>isMounted := b, trace := trace s @ [SetMounted b]\<rparr>)"

definition set_pagViewRef :: "view option \<Rightarrow> stmt" where
  "set_pagViewRef v s = (Normal, s\<lparr>pagViewRef := v, trace := trace s @ [SetSession v]\<rparr>)"

text \<open>
  Lines 73-75. Writing a property of null throws a TypeError, which is an Error; the text
  of its message is the JavaScript engine's.
\<close>

definition null_canvas_error :: thrown where
  "null_canvas_error = JsError ''Cannot set properties of null''"

definition set_canvas_size :: "int \<Rightarrow> int \<Rightarrow> stmt" where
  "set_canvas_size w h s =
     (case canvas s of
        None \<Rightarrow> (Throw null_canvas_error, s)
      | Some _ \<Rightarrow> (Normal, s\<lparr>canvas := Some (w, h), trace := trace s @ [SetCanvasSize w h]\<rparr>))"

text \<open>
  Lines 106-123: \<^verbatim>\<open>setInterval\<close> arms a timer and gives out its handle, a positive
  integer, which line 123 stores on the handle object \<open>v\<close>.
\<close>

definition arm_watchdog :: "view \<Rightarrow> stmt" where
  "arm_watchdog v s =
     (let i = Suc (lastTimer s) in
      (Normal, s\<lparr>lastTimer := i, timers := insert i (timers s),
                 loopIntervalId := (loopIntervalId s)(v \<mapsto> i),
                 trace := trace s @ [CallSetInterval i 100, SetLoopIntervalId v i]\<rparr>))"

definition clearInterval :: "nat \<Rightarrow> stmt" where
  "clearInterval i s = (Normal, s\<lparr>timers := timers s - {i}, trace := trace s @ [CallClearInterval i]\<rparr>)"

subsection \<open>initPagAnimation (lines 37-138)\<close>

text \<open>The catch block, lines 129-137.\<close>

definition error_message :: "thrown \<Rightarrow> string" where
  "error_message err = (case err of JsError m \<Rightarrow> m | NonError \<Rightarrow> ''Unknown error occurred'')"

definition catch_block :: "thrown \<Rightarrow> stmt" where
  "catch_block err =
     js_block
       [emit (ConsoleError err),
        js_if isMounted
          (js_block [setError (Some (error_message err)), setIsLoading False])
          js_skip]"

text \<open>
  The try block, lines 38-128, from the point \<open>pc\<close> where the function was suspended up to
  the next \<^verbatim>\<open>await\<close> or to its end.
\<close>

fun try_block :: "props \<Rightarrow> engine \<Rightarrow> pc \<Rightarrow> stmt" where
  "try_block p e NotStarted =
     js_block
       [setIsLoading True,
        setError None,
        js_if (\<lambda>s. canvas s = None) (js_throw (JsError ''Canvas element not found'')) js_skip,
        emit CallPAGInit,
        js_await AwaitPAGInit]"
| "try_block p e AwaitPAGInit =
     js_block
       [settled (PAGInit_result e),
        emit (CallFetch (pagFile p)),
        js_await AwaitFetch]"
| "try_block p e AwaitFetch =
     (case fetch_result e of
        Throws t \<Rightarrow> js_throw t
      | Returns r \<Rightarrow>
          js_block
            [js_if (\<lambda>s. \<not> ok r)
               (js_throw (JsError (''Failed to load PAG file: '' @ statusText r))) js_skip,
             emit CallArrayBuffer,
             js_await AwaitArrayBuffer])"
| "try_block p e AwaitArrayBuffer =
     js_block
       [settled (arrayBuffer_result e),
        emit CallLoad,
        js_await AwaitLoad]"
| "try_block p e AwaitLoad =
     (case load_result e of
        Throws t \<Rightarrow> js_throw t
      | Returns pagFileInstance \<Rightarrow>
          js_block
            [js_if (\<lambda>s. \<not> pagFileInstance) (js_throw (JsError ''Failed to load PAG file'')) js_skip,
             js_if (\<lambda>s. \<not> isMounted s) js_return js_skip,
             set_canvas_size (width p) (height p),
             emit CallInit,
             js_await AwaitInit])"
| "try_block p e AwaitInit =
     (case init_result e of
        Throws t \<Rightarrow> js_throw t
      | Returns None \<Rightarrow> js_throw (JsError ''Failed to create PAG view'')
      | Returns (Some pagView) \<Rightarrow>
          js_block
            [set_pagViewRef (Some pagView),
             js_if (\<lambda>s. loop p)
               (js_try (call (CallSetRepeatCount pagView (- 1)) (setRepeatCount_result e))
                  (\<lambda>err. emit (ConsoleWarn ''setRepeatCount not available, using alternative approach'')))
               js_skip,
             js_if (\<lambda>s. autoPlay p)
               (js_block [emit (CallPlay pagView), js_await (AwaitPlay pagView)])
               js_skip,
             setIsLoading False])"
| "try_block p e (AwaitPlay pagView) =
     js_block
       [settled (play_result e),
        js_if (\<lambda>s. loop p)
          (js_if (\<lambda>s. canvas s \<noteq> None) (arm_watchdog pagView) js_skip)
          js_skip,
        setIsLoading False]"
| "try_block p e Finished = js_skip"

text \<open>
  One segment of the asynchronous function: the try block from the current point, with its
  catch block; the function is then suspended again or has finished.
\<close>

definition initPagAnimation :: "props \<Rightarrow> engine \<Rightarrow> state \<Rightarrow> state" where
  "initPagAnimation p e s =
     (case js_try (try_block p e (pc s)) catch_block s of
        (Await q, s') \<Rightarrow> s'\<lparr>pc := q\<rparr>
      | (_, s') \<Rightarrow> s'\<lparr>pc := Finished\<rparr>)"

subsection \<open>The interval callback (lines 106-120)\<close>

text \<open>\<^verbatim>\<open>getProgress?.() || 0\<close>: a missing method, NaN and 0 are falsy and give 0.\<close>

definition or_zero :: "jsnum option \<Rightarrow> rat" where
  "or_zero x = (case x of None \<Rightarrow> 0 | Some NaN \<Rightarrow> 0 | Some (Num r) \<Rightarrow> r)"

text \<open>
  The promise that \<^verbatim>\<open>play()\<close> returned is dropped. When it rejects, no handler is
  attached to it, neither by an \<^verbatim>\<open>await\<close> nor by a \<^verbatim>\<open>catch\<close>: the rejection
  is not an exception of the callback, the try statement around the call does not see it, and
  the host is told of it. The trace records that at the end of the tick.
\<close>

definition floating :: "settlement outcome \<Rightarrow> stmt" where
  "floating r =
     (case r of
        Returns (Rejects t) \<Rightarrow> emit (UnhandledRejection t)
      | _ \<Rightarrow> js_skip)"

definition restart_if_ended :: "view \<Rightarrow> poll \<Rightarrow> rat \<Rightarrow> stmt" where
  "restart_if_ended v q progress =
     js_if (\<lambda>s. progress \<ge> double_0_99)
       (js_block
          [call (CallSetProgress v 0) (setProgress_result q),
           call (CallPlay v) (restart_result q),
           floating (restart_result q)])
       js_skip"

definition poll_progress :: "view \<Rightarrow> poll \<Rightarrow> stmt" where
  "poll_progress v q =
     (case getProgress_result q of
        NoGetProgress \<Rightarrow> restart_if_ended v q (or_zero None)
      | GetProgress (Throws t) \<Rightarrow> call (CallGetProgress v) (Throws t :: unit outcome)
      | GetProgress (Returns x) \<Rightarrow>
          js_block [emit (CallGetProgress v), restart_if_ended v q (or_zero (Some x))])"

definition tick :: "poll \<Rightarrow> stmt" where
  "tick q s =
     (case pagViewRef s of
        Some v \<Rightarrow>
          js_if isMounted (js_try (poll_progress v q) (\<lambda>err. js_skip)) js_skip s
      | None \<Rightarrow> js_skip s)"

subsection \<open>The cleanup closure (lines 142-157)\<close>

text \<open>Lines 147-150: \<^verbatim>\<open>if (intervalId)\<close> is false for a missing property and for 0.\<close>

definition clear_loop_interval :: "view \<Rightarrow> stmt" where
  "clear_loop_interval v s =
     (case loopIntervalId s v of
        None \<Rightarrow> js_skip s
      | Some intervalId \<Rightarrow> if intervalId \<noteq> 0 then clearInterval intervalId s else js_skip s)"

definition cleanup :: "engine \<Rightarrow> stmt" where
  "cleanup e =
     js_block
       [set_isMounted False,
        (\<lambda>s. case pagViewRef s of
           None \<Rightarrow> js_skip s
         | Some v \<Rightarrow>
             js_block
               [js_try
                  (js_block [clear_loop_interval v, call (CallDestroy v) (destroy_result e)])
                  (\<lambda>err. emit (ConsoleWarn ''Error destroying PAG view:'')),
                set_pagViewRef None] s)]"

subsection \<open>The effect and its schedule\<close>

text \<open>
  Lines 34-140, as the new activation sees them: the effect declares its own \<open>isMounted\<close>
  as true and calls its own asynchronous function, which runs up to its first
  \<^verbatim>\<open>await\<close>. The closure of an activation before it is not part of this state; the
  component, below, keeps it, and \<open>rerun\<close> stores it before the new effect runs.
\<close>

definition useEffect :: "props \<Rightarrow> engine \<Rightarrow> state \<Rightarrow> state" where
  "useEffect p e s = initPagAnimation p e (s\<lparr>isMounted := True, pc := NotStarted\<rparr>)"

text \<open>
  What can happen after that: the pending promise settles and the function resumes; React
  runs the cleanup; an armed interval fires; React detaches the canvas from its ref.
\<close>

datatype event = Settle | Teardown | Tick nat poll | CanvasDetach

fun step :: "props \<Rightarrow> engine \<Rightarrow> state \<Rightarrow> event \<Rightarrow> state" where
  "step p e s Settle = initPagAnimation p e s"
| "step p e s Teardown = snd (cleanup e s)"
| "step p e s (Tick i q) = (if i \<in> timers s then snd (tick q s) else s)"
| "step p e s CanvasDetach = s\<lparr>canvas := None\<rparr>"

definition run :: "props \<Rightarrow> engine \<Rightarrow> state \<Rightarrow> event list \<Rightarrow> state" where
  "run p e s evs = foldl (step p e) s evs"

subsection \<open>The component over several activations\<close>

text \<open>
  Each run of the effect has a closure of its own (lines 35-37). When a dependency changes
  (line 158) React runs the cleanup of the current activation and then the effect again. The
  asynchronous function of the earlier activation may still be suspended then; it resumes
  later, with its own props, its own collaborators' answers and its own \<open>isMounted\<close>,
  which the cleanup has set to false, on the cells that all activations share.
\<close>

record closure =
  its_props :: props
  its_engine :: engine
  its_pc :: pc

text \<open>
  The component: the cells with the closure of the current activation, what the current
  activation was started with, the closures of the earlier activations, and the intervals
  whose callback belongs to an earlier activation.
\<close>

record component =
  cells :: state
  cur_props :: props
  cur_engine :: engine
  earlier :: "closure list"
  stale_timers :: "nat set"

text \<open>The first run of the effect.\<close>

definition mount :: "props \<Rightarrow> engine \<Rightarrow> state \<Rightarrow> component" where
  "mount p e s =
     \<lparr>cells = useEffect p e s, cur_props = p, cur_engine = e, earlier = [], stale_timers = {}\<rparr>"

text \<open>
  A dependency changed: the cleanup of the current activation runs, its closure is kept, the
  intervals that are still live now belong to activations that were cleaned up, and the effect
  runs with the new props.
\<close>

definition rerun :: "props \<Rightarrow> engine \<Rightarrow> component \<Rightarrow> component" where
  "rerun p e c =
     (let s = snd (cleanup (cur_engine c) (cells c)) in
      \<lparr>cells = useEffect p e s, cur_props = p, cur_engine = e,
       earlier = earlier c @
         [\<lparr>its_props = cur_props c, its_engine = cur_engine c, its_pc = pc s\<rparr>],
       stale_timers = stale_timers c \<union> timers s\<rparr>)"

text \<open>
  The pending promise of the earlier activation \<open>k\<close> settles: its asynchronous function
  resumes with its own \<open>isMounted\<close> (false) and its own point of suspension, and the current
  activation keeps its own. An interval that it arms belongs to it.
\<close>

definition resume_earlier :: "nat \<Rightarrow> component \<Rightarrow> component" where
  "resume_earlier k c =
     (if k < length (earlier c) then
        (let cl = earlier c ! k;
             s = initPagAnimation (its_props cl) (its_engine cl)
                   ((cells c)\<lparr>isMounted := False, pc := its_pc cl\<rparr>)
         in c\<lparr>cells := s\<lparr>isMounted := isMounted (cells c), pc := pc (cells c)\<rparr>,
              earlier := (earlier c)[k := cl\<lparr>its_pc := pc s\<rparr>],
              stale_timers := stale_timers c \<union> (timers s - timers (cells c))\<rparr>)
      else c)"

text \<open>
  What can happen to the component: an event of the current activation, a change of the props,
  or the resumption of an earlier activation. The callback of an interval of an earlier
  activation tests that activation's \<open>isMounted\<close>, which is false, and does nothing.
\<close>

datatype cevent = Now event | Rerun props engine | Stale nat

fun cstep :: "component \<Rightarrow> cevent \<Rightarrow> component" where
  "cstep c (Now (Tick i q)) =
     (if i \<in> stale_timers c then c
      else c\<lparr>cells := step (cur_props c) (cur_engine c) (cells c) (Tick i q)\<rparr>)"
| "cstep c (Now ev) = c\<lparr>cells := step (cur_props c) (cur_engine c) (cells c) ev\<rparr>"
| "cstep c (Rerun p e) = rerun p e c"
| "cstep c (Stale k) = resume_earlier k c"

definition crun :: "component \<Rightarrow> cevent list \<Rightarrow> component" where
  "crun c evs = foldl cstep c evs"

subsection \<open>Presentation State (lines 179-218)\<close>

text \<open>
  The render function shows the error when \<^verbatim>\<open>error\<close> is truthy (a non-empty string), and
  otherwise the loading indicator or the canvas according to \<^verbatim>\<open>isLoading\<close>.
\<close>

datatype presentation = Loading | Ready | Error string

definition presentation :: "state \<Rightarrow> presentation" where
  "presentation s =
     (case error s of
        Some m \<Rightarrow> if m \<noteq> [] then Error m else if isLoading s then Loading else Ready
      | None \<Rightarrow> if isLoading s then Loading else Ready)"

subsection \<open>Notions used in the statements\<close>

text \<open>
  The watchdog of the Session is armed: the handle that \<open>pagViewRef\<close> holds carries an
  interval handle, and that interval is live.
\<close>

definition watchdog_armed :: "state \<Rightarrow> bool" where
  "watchdog_armed s =
     (case pagViewRef s of
        None \<Rightarrow> False
      | Some v \<Rightarrow> (case loopIntervalId s v of None \<Rightarrow> False | Some i \<Rightarrow> i \<in> timers s))"

















subsection \<open>A concrete activation\<close>

text \<open>
  Default props, collaborators that all succeed (the bind answers the handle 7), and the
  component as it is before its first effect runs, with the canvas attached.
\<close>

definition example_props :: props where
  "example_props = \<lparr>pagFile = ''a.pag'', width = 300, height = 300, autoPlay = True, loop = True\<rparr>"

definition example_engine :: engine where
  "example_engine =
     \<lparr>PAGInit_result = Returns (),
      fetch_result = Returns \<lparr>ok = True, statusText = ''OK''\<rparr>,
      arrayBuffer_result = Returns (),
      load_result = Returns True,
      init_result = Returns (Some 7),
      setRepeatCount_result = Returns (),
      play_result = Returns (),
      destroy_result = Returns ()\<rparr>"

definition initial_state :: state where
  "initial_state =
     \<lparr>isMounted = False, pagViewRef = None, isLoading = True, error = None,
      canvas = Some (0, 0), loopIntervalId = Map.empty, timers = {}, lastTimer = 0,
      pc = NotStarted, trace = []\<rparr>"

definition example_poll :: "rat \<Rightarrow> poll" where
  "example_poll r =
     \<lparr>getProgress_result = GetProgress (Returns (Num r)),
      setProgress_result = Returns (), restart_result = Returns Resolves\<rparr>"

text \<open>
  A change of the asset: new props, and collaborators whose fetch answers 404.
\<close>

definition changed_props :: props where
  "changed_props = example_props\<lparr>pagFile := ''b.pag''\<rparr>"

definition not_found_engine :: engine where
  "not_found_engine =
     example_engine\<lparr>fetch_result := Returns \<lparr>ok = False, statusText = ''Not Found''\<rparr>\<rparr>"

section \<open>Properties\<close>

lemmas js_defs = js_skip_def js_throw_def js_return_def js_await_def js_if_def js_try_def
  emit_def call_def settled_def

lemmas cell_defs = setIsLoading_def setError_def set_isMounted_def set_pagViewRef_def
  set_canvas_size_def arm_watchdog_def clearInterval_def

lemmas init_defs = initPagAnimation_def catch_block_def

lemmas example_defs = example_props_def example_engine_def initial_state_def example_poll_def
  changed_props_def not_found_engine_def

lemmas tick_defs = tick_def poll_progress_def restart_if_ended_def floating_def or_zero_def
  double_0_99_def

lemmas eval_defs = run_def useEffect_def init_defs js_defs cell_defs example_defs
  error_message_def

lemmas ceval_defs = crun_def mount_def rerun_def resume_earlier_def cleanup_def
  clear_loop_interval_def Let_def eval_defs

subsection \<open>The interval callback changes the trace only\<close>



subsection \<open>Absent canvas\<close>

text \<open>
  Claim C10. If the canvas is absent when the effect starts, the initializer fails at once with
  the message "Canvas element not found": the only actions of the run are the two resets, the
  console report and the two state updates of the catch block, so no collaborator (bootstrap,
  fetch, decode, bind) is invoked; the Presentation State is Error with that message, the
  function has finished, and the Session reference is left as it was.
\<close>

theorem canvas_absent_fails_first:
  assumes "canvas s = None"
  shows "useEffect p e s =
           s\<lparr>isMounted := True, isLoading := False,
             error := Some ''Canvas element not found'', pc := Finished,
             trace := trace s @
               [SetIsLoading True, SetError None,
                ConsoleError (JsError ''Canvas element not found''),
                SetError (Some ''Canvas element not found''), SetIsLoading False]\<rparr>
         \<and> presentation (useEffect p e s) = Error ''Canvas element not found''
         \<and> pagViewRef (useEffect p e s) = pagViewRef s"
  using assms
  by (simp add: useEffect_def initPagAnimation_def catch_block_def error_message_def
      presentation_def js_defs cell_defs)

theorem canvas_absent_fails_first_witness:
  "canvas (initial_state\<lparr>canvas := None\<rparr>) = None
   \<and> presentation (useEffect example_props example_engine (initial_state\<lparr>canvas := None\<rparr>))
       = Error ''Canvas element not found''
   \<and> pagViewRef (useEffect example_props example_engine (initial_state\<lparr>canvas := None\<rparr>)) = None"
  using canvas_absent_fails_first [of "initial_state\<lparr>canvas := None\<rparr>" example_props example_engine]
  by (simp add: initial_state_def presentation_def)

subsection \<open>Teardown\<close>

text \<open>
  Claim C8. The cleanup invalidates the token first; then, if a Session exists, it cancels the
  interval recorded on the handle (when one is recorded), calls destroy, logs a warning if
  destroy threw, and clears the Session reference, in this order. It always completes
  normally: a failure of destroy does not escape.
\<close>

theorem cleanup_order:
  "fst (cleanup e s) = Normal
   \<and> isMounted (snd (cleanup e s)) = False
   \<and> pagViewRef (snd (cleanup e s)) = None
   \<and> trace (snd (cleanup e s)) =
       trace s @ [SetMounted False] @
       (case pagViewRef s of
          None \<Rightarrow> []
        | Some v \<Rightarrow>
            (case loopIntervalId s v of
               None \<Rightarrow> []
             | Some i \<Rightarrow> if i \<noteq> 0 then [CallClearInterval i] else []) @
            [CallDestroy v] @
            (case destroy_result e of
               Returns _ \<Rightarrow> []
             | Throws t \<Rightarrow> [ConsoleWarn ''Error destroying PAG view:'']) @
            [SetSession None])
   \<and> timers (snd (cleanup e s)) =
       (case pagViewRef s of
          None \<Rightarrow> timers s
        | Some v \<Rightarrow>
            (case loopIntervalId s v of
               None \<Rightarrow> timers s
             | Some i \<Rightarrow> if i \<noteq> 0 then timers s - {i} else timers s))"
  by (simp add: cleanup_def clear_loop_interval_def js_defs cell_defs
      split: option.split outcome.split)

theorem cleanup_order_witness:
  "trace (snd (cleanup (example_engine\<lparr>destroy_result := Throws NonError\<rparr>)
      (initial_state\<lparr>pagViewRef := Some 7, loopIntervalId := [7 \<mapsto> 1], timers := {1}\<rparr>))) =
     [SetMounted False, CallClearInterval 1, CallDestroy 7,
      ConsoleWarn ''Error destroying PAG view:'', SetSession None]
   \<and> timers (snd (cleanup (example_engine\<lparr>destroy_result := Throws NonError\<rparr>)
      (initial_state\<lparr>pagViewRef := Some 7, loopIntervalId := [7 \<mapsto> 1], timers := {1}\<rparr>))) = {}"
  using cleanup_order [of "example_engine\<lparr>destroy_result := Throws NonError\<rparr>"
      "initial_state\<lparr>pagViewRef := Some 7, loopIntervalId := [7 \<mapsto> 1], timers := {1}\<rparr>"]
  by (simp add: example_defs)

text \<open>
  Claim C9. Teardown is idempotent. From every state the cleanup completes normally, and a
  second cleanup right after it completes normally as well and leaves every cell as the
  first one left it: it finds the Session reference cleared, so all it does is assign false
  to the token again, with no cancellation and no release.
\<close>

theorem cleanup_idempotent:
  "fst (cleanup e s) = Normal
   \<and> cleanup e' (snd (cleanup e s)) =
       (Normal, (snd (cleanup e s))\<lparr>trace := trace (snd (cleanup e s)) @ [SetMounted False]\<rparr>)"
  by (simp add: cleanup_def clear_loop_interval_def js_defs cell_defs
      split: option.split outcome.split)

theorem cleanup_idempotent_witness:
  "snd (cleanup example_engine (snd (cleanup example_engine
      (initial_state\<lparr>pagViewRef := Some 7, loopIntervalId := [7 \<mapsto> 3], timers := {3}\<rparr>)))) =
   initial_state\<lparr>pagViewRef := None, loopIntervalId := [7 \<mapsto> 3], timers := {},
     trace := [SetMounted False, CallClearInterval 3, CallDestroy 7, SetSession None,
               SetMounted False]\<rparr>"
proof -
  have first: "snd (cleanup example_engine
      (initial_state\<lparr>pagViewRef := Some 7, loopIntervalId := [7 \<mapsto> 3], timers := {3}\<rparr>)) =
    initial_state\<lparr>pagViewRef := None, loopIntervalId := [7 \<mapsto> 3], timers := {},
      trace := [SetMounted False, CallClearInterval 3, CallDestroy 7, SetSession None]\<rparr>"
    by (simp add: cleanup_def clear_loop_interval_def js_defs cell_defs example_defs)
  show ?thesis
    using cleanup_idempotent [of example_engine
        "initial_state\<lparr>pagViewRef := Some 7, loopIntervalId := [7 \<mapsto> 3], timers := {3}\<rparr>"
        example_engine]
    by (simp add: first)
qed

subsection \<open>The watchdog tick\<close>

text \<open>
  Claim C5 asks that every error of the poll and of the restart is swallowed and does not reach
  the host. The try statement of lines 108-118 catches what the calls throw, but the promise
  that play() returns at line 114 is neither awaited nor given a handler. In the tick below
  the Session is live, the polled progress is 0.995, setProgress returns and the promise of
  play rejects: the callback completes normally, and the rejection is delivered to the host
  as an unhandled rejection.
\<close>

theorem rejected_restart_reaches_host:
  "tick \<lparr>getProgress_result = GetProgress (Returns (Num (995 / 1000))),
          setProgress_result = Returns (),
          restart_result = Returns (Rejects (JsError ''play failed''))\<rparr>
        (initial_state\<lparr>pagViewRef := Some 7, isMounted := True\<rparr>) =
     (Normal,
      initial_state\<lparr>pagViewRef := Some 7, isMounted := True,
        trace := [CallGetProgress 7, CallSetProgress 7 0, CallPlay 7,
                  UnhandledRejection (JsError ''play failed'')]\<rparr>)"
  by (simp add: tick_defs js_defs example_defs)

subsection \<open>Activations that are not disturbed\<close>














subsection \<open>Schedules of the component\<close>








subsection \<open>When the watchdog is armed\<close>




subsection \<open>When the Presentation State is Error\<close>




subsection \<open>An earlier activation resumes\<close>

text \<open>
  Claim C7 asks that an activation that is not torn down reaches exactly one of Ready and
  Error, and not before its initialization has completed. In the run below the first
  activation is cleaned up by a change of the asset while its bind is pending, and the fetch
  of the second activation answers 404. The first activation's function resumes after its
  cleanup (the token is checked at line 70 only) and clears the loading flag, which the two
  activations share: the Presentation State is Ready while the second activation, which is
  never torn down, still awaits its first promise. When its fetch has failed the
  Presentation State is Error.
\<close>

theorem ready_then_error_across_activations:
  "presentation (cells (crun (mount example_props example_engine initial_state)
      [Now Settle, Now Settle, Now Settle, Now Settle,
       Rerun changed_props not_found_engine, Stale 0, Stale 0])) = Ready
   \<and> pc (cells (crun (mount example_props example_engine initial_state)
      [Now Settle, Now Settle, Now Settle, Now Settle,
       Rerun changed_props not_found_engine, Stale 0, Stale 0])) = AwaitPAGInit
   \<and> isMounted (cells (crun (mount example_props example_engine initial_state)
      [Now Settle, Now Settle, Now Settle, Now Settle,
       Rerun changed_props not_found_engine, Stale 0, Stale 0]))
   \<and> presentation (cells (crun (mount example_props example_engine initial_state)
      [Now Settle, Now Settle, Now Settle, Now Settle,
       Rerun changed_props not_found_engine, Stale 0, Stale 0,
       Now Settle, Now Settle])) = Error ''Failed to load PAG file: Not Found''
   \<and> pc (cells (crun (mount example_props example_engine initial_state)
      [Now Settle, Now Settle, Now Settle, Now Settle,
       Rerun changed_props not_found_engine, Stale 0, Stale 0,
       Now Settle, Now Settle])) = Finished
   \<and> isMounted (cells (crun (mount example_props example_engine initial_state)
      [Now Settle, Now Settle, Now Settle, Now Settle,
       Rerun changed_props not_found_engine, Stale 0, Stale 0,
       Now Settle, Now Settle]))"
  by (simp add: ceval_defs presentation_def)

subsection \<open>Failures of the stages\<close>




subsection \<open>A failing setRepeatCount\<close>

text \<open>
  Claim C6. With \<open>loop\<close> requested, let the bind answer a handle and setRepeatCount
  throw. The segment then installs the Session, logs a warning and goes on exactly as it
  does after a successful call: the error cell and the loading flag are not touched by the
  failure, with \<open>autoPlay\<close> play is called and awaited, without it the initializer
  finishes with the loading flag cleared. With \<open>autoPlay\<close>, once play has resolved (the
  canvas being attached) the initializer finishes without an error, the watchdog is armed on
  the Session, and a tick that polls a progress of at least 0.99 on the valid activation
  calls setProgress(0) and then play.
\<close>

theorem setRepeatCount_failure_swallowed:
  assumes "loop p" and "pc s = AwaitInit" and "init_result e = Returns (Some v)"
    and "setRepeatCount_result e = Throws t"
    and "s1 = initPagAnimation p e s" and "s2 = initPagAnimation p e s1"
    and "i = Suc (lastTimer s)"
  shows "s1 =
      (if autoPlay p
       then s\<lparr>pagViewRef := Some v, pc := AwaitPlay v,
              trace := trace s @
                [SetSession (Some v), CallSetRepeatCount v (- 1),
                 ConsoleWarn ''setRepeatCount not available, using alternative approach'',
                 CallPlay v]\<rparr>
       else s\<lparr>pagViewRef := Some v, isLoading := False, pc := Finished,
              trace := trace s @
                [SetSession (Some v), CallSetRepeatCount v (- 1),
                 ConsoleWarn ''setRepeatCount not available, using alternative approach'',
                 SetIsLoading False]\<rparr>)
    \<and> (autoPlay p \<and> play_result e = Returns () \<and> canvas s \<noteq> None \<longrightarrow>
          pc s2 = Finished \<and> error s2 = error s \<and> \<not> isLoading s2 \<and>
          pagViewRef s2 = Some v \<and> loopIntervalId s2 v = Some i \<and> i \<in> timers s2 \<and>
          watchdog_armed s2 \<and>
          (isMounted s \<and> getProgress_result q = GetProgress (Returns (Num r)) \<and>
           r \<ge> double_0_99 \<and> setProgress_result q = Returns () \<longrightarrow>
             trace (step p e s2 (Tick i q)) =
               trace s2 @ [CallGetProgress v, CallSetProgress v 0, CallPlay v] @
               (case restart_result q of
                  Returns (Rejects x) \<Rightarrow> [UnhandledRejection x]
                | _ \<Rightarrow> [])))"
proof -
  have first: "s1 =
      (if autoPlay p
       then s\<lparr>pagViewRef := Some v, pc := AwaitPlay v,
              trace := trace s @
                [SetSession (Some v), CallSetRepeatCount v (- 1),
                 ConsoleWarn ''setRepeatCount not available, using alternative approach'',
                 CallPlay v]\<rparr>
       else s\<lparr>pagViewRef := Some v, isLoading := False, pc := Finished,
              trace := trace s @
                [SetSession (Some v), CallSetRepeatCount v (- 1),
                 ConsoleWarn ''setRepeatCount not available, using alternative approach'',
                 SetIsLoading False]\<rparr>)"
    using assms(1-5) by (simp add: init_defs js_defs cell_defs)
  have second: "autoPlay p \<and> play_result e = Returns () \<and> canvas s \<noteq> None \<longrightarrow>
      s2 = s\<lparr>pagViewRef := Some v, lastTimer := i, timers := insert i (timers s),
             loopIntervalId := (loopIntervalId s)(v \<mapsto> i), isLoading := False,
             pc := Finished,
             trace := trace s @
                [SetSession (Some v), CallSetRepeatCount v (- 1),
                 ConsoleWarn ''setRepeatCount not available, using alternative approach'',
                 CallPlay v, CallSetInterval i 100, SetLoopIntervalId v i,
                 SetIsLoading False]\<rparr>"
    using assms(1) assms(6,7) unfolding first
    by (auto simp add: init_defs js_defs cell_defs Let_def)
  have third: "autoPlay p \<and> play_result e = Returns () \<and> canvas s \<noteq> None \<and>
      isMounted s \<and> getProgress_result q = GetProgress (Returns (Num r)) \<and>
      r \<ge> double_0_99 \<and> setProgress_result q = Returns () \<longrightarrow>
        trace (step p e s2 (Tick i q)) =
          trace s2 @ [CallGetProgress v, CallSetProgress v 0, CallPlay v] @
          (case restart_result q of
             Returns (Rejects x) \<Rightarrow> [UnhandledRejection x]
           | _ \<Rightarrow> [])"
    using second
    by (auto simp add: tick_def poll_progress_def restart_if_ended_def floating_def or_zero_def
        js_defs split: outcome.split settlement.split)
  from first second third show ?thesis
    by (auto simp add: watchdog_armed_def)
qed

theorem setRepeatCount_failure_swallowed_witness:
  "trace (step example_props (example_engine\<lparr>setRepeatCount_result := Throws NonError\<rparr>)
      (initPagAnimation example_props (example_engine\<lparr>setRepeatCount_result := Throws NonError\<rparr>)
        (initPagAnimation example_props (example_engine\<lparr>setRepeatCount_result := Throws NonError\<rparr>)
          (initial_state\<lparr>isMounted := True, pc := AwaitInit\<rparr>)))
      (Tick 1 (example_poll (995 / 1000)))) =
    [SetSession (Some 7), CallSetRepeatCount 7 (- 1),
     ConsoleWarn ''setRepeatCount not available, using alternative approach'', CallPlay 7,
     CallSetInterval 1 100, SetLoopIntervalId 7 1, SetIsLoading False,
     CallGetProgress 7, CallSetProgress 7 0, CallPlay 7]"
  using setRepeatCount_failure_swallowed
    [where p = example_props
       and e = "example_engine\<lparr>setRepeatCount_result := Throws NonError\<rparr>"
       and s = "initial_state\<lparr>isMounted := True, pc := AwaitInit\<rparr>"
       and v = 7 and t = NonError and q = "example_poll (995 / 1000)" and r = "995 / 1000"
       and i = 1, OF _ _ _ _ refl refl]
  by (simp add: example_defs init_defs js_defs cell_defs double_0_99_def)

subsection \<open>Teardown while the bind is pending\<close>

text \<open>
  Claim C1 asks that nothing is installed or changed once the token is invalid. The token is
  checked after the decode only (line 70). In the run below every stage succeeds and the
  cleanup runs while the bind is pending: when the bind and then play resolve, the Session is
  installed, setRepeatCount and play are called, an interval is armed and the loading flag
  is cleared, all after the token was invalidated; the handle is never destroyed and the
  interval never cancelled.
\<close>

theorem late_bind_after_teardown:
  "run example_props example_engine (useEffect example_props example_engine initial_state)
     [Settle, Settle, Settle, Settle, Teardown, Settle, Settle] =
   initial_state\<lparr>isMounted := False, pagViewRef := Some 7, isLoading := False,
     canvas := Some (300, 300), loopIntervalId := [7 \<mapsto> 1], timers := {1}, lastTimer := 1,
     pc := Finished,
     trace := [SetIsLoading True, SetError None, CallPAGInit, CallFetch ''a.pag'',
       CallArrayBuffer, CallLoad, SetCanvasSize 300 300, CallInit, SetMounted False,
       SetSession (Some 7), CallSetRepeatCount 7 (- 1), CallPlay 7, CallSetInterval 1 100,
       SetLoopIntervalId 7 1, SetIsLoading False]\<rparr>"
  by (simp add: eval_defs cleanup_def clear_loop_interval_def)

end
